theory Spec2Isabelle
  imports
    Complex_Main
    "HOL-Library.Char_ord"
    "HOL-Library.List_Lexorder"
    "HOL-Library.Product_Lexorder"
    "HOL-Library.Sublist"
begin

section \<open>Data model (models.py)\<close>

text \<open>
  Station identifiers are Python strings, compared lexicographically by code point;
  they are modelled as \<^typ>\<open>string\<close> with the lexicographic order on character
  lists. Python floats (distances, durations, percentages, delays) are modelled as exact
  rationals. Python integers are \<^typ>\<open>int\<close>.
\<close>

record StationCoordinate =
  station_id :: string
  latitude :: rat
  longitude :: rat

record RouteStatistics =
  departure_station_id :: string
  return_station_id :: string
  trip_count :: int
  avg_distance_m :: rat
  avg_duration_s :: rat

record RouteGeometry =
  route_key :: string
  geom_departure_station_id :: string
  geom_return_station_id :: string
  polyline :: string
  distance_km :: rat
  duration_minutes :: rat

text \<open>
  The two places that build a key (\<open>RouteStatistics.route_key\<close> and
  \<open>RouteGenerator.generate_route\<close>) both evaluate
  \<^verbatim>\<open>stations = sorted([a, b]); f"{stations[0]}-{stations[1]}"\<close>.
\<close>

definition sorted_join :: "string \<Rightarrow> string \<Rightarrow> string" where
  "sorted_join a b = (let stations = sort [a, b] in stations ! 0 @ ''-'' @ stations ! 1)"


definition is_reversed :: "RouteStatistics \<Rightarrow> bool" where
  "is_reversed r \<longleftrightarrow> departure_station_id r > return_station_id r"

text \<open>\<open>RouteStatistics.__post_init__\<close>: the checks that raise \<open>ValueError\<close>.\<close>

definition valid_statistics :: "RouteStatistics \<Rightarrow> bool" where
  "valid_statistics r \<longleftrightarrow>
     \<not> trip_count r < 1 \<and> \<not> avg_distance_m r < 0 \<and> \<not> avg_duration_s r < 0"

text \<open>
  \<open>RouteGeometry.__post_init__\<close>: the constructor raises \<open>ValueError\<close> with the
  returned message (the formatted number is left out of the message); the warning about
  routes longer than 100 km only logs.
\<close>

definition RouteGeometry_init :: "RouteGeometry \<Rightarrow> string + RouteGeometry" where
  "RouteGeometry_init g =
     (if polyline g = [] then Inl ''Polyline cannot be empty''
      else if distance_km g < 0 then Inl ''Distance cannot be negative''
      else if duration_minutes g < 0 then Inl ''Duration cannot be negative''
      else Inr g)"

section \<open>Configuration (config.py)\<close>

datatype RouteSelectionType = TOP_N | PERCENTAGE

record RouteSelectionStrategy =
  selection_type :: RouteSelectionType
  top_n :: "int option"
  coverage_percentage :: "rat option"

text \<open>Every configuration error of the source is a \<open>ValueError\<close>; the constructor
  names which check raised it.\<close>

datatype config_error =
    N_must_be_positive int
  | Percentage_must_be_between_0_and_100 rat
  | No_strategy_set
  | Min_trips_threshold_must_be_positive int
  | Batch_size_must_be_between_1_and_1000 int

definition create_top_n :: "int \<Rightarrow> config_error + RouteSelectionStrategy" where
  "create_top_n n =
     (if n < 1 then Inl (N_must_be_positive n)
      else Inr \<lparr>selection_type = TOP_N, top_n = Some n, coverage_percentage = None\<rparr>)"

definition create_percentage :: "rat \<Rightarrow> config_error + RouteSelectionStrategy" where
  "create_percentage pct =
     (if \<not> (0 < pct \<and> pct \<le> 100) then Inl (Percentage_must_be_between_0_and_100 pct)
      else Inr \<lparr>selection_type = PERCENTAGE, top_n = None, coverage_percentage = Some pct\<rparr>)"

record RouteGenerationConfig =
  global_strategy :: "RouteSelectionStrategy option"
  individual_strategy :: "RouteSelectionStrategy option"
  per_station_aggregate_strategy :: "RouteSelectionStrategy option"
  min_trips_threshold :: int
  batch_size :: int
  cfg_log_interval :: int
  costing :: string
  bicycle_type :: string

definition should_generate_global :: "RouteGenerationConfig \<Rightarrow> bool" where
  "should_generate_global c \<longleftrightarrow> global_strategy c \<noteq> None"

definition should_generate_individual :: "RouteGenerationConfig \<Rightarrow> bool" where
  "should_generate_individual c \<longleftrightarrow> individual_strategy c \<noteq> None"

definition should_generate_aggregate :: "RouteGenerationConfig \<Rightarrow> bool" where
  "should_generate_aggregate c \<longleftrightarrow> per_station_aggregate_strategy c \<noteq> None"

text \<open>The dataclass constructor followed by \<open>__post_init__\<close>: the configuration value
  exists only if no check raised.\<close>

definition RouteGenerationConfig_init :: "RouteGenerationConfig \<Rightarrow> config_error + RouteGenerationConfig" where
  "RouteGenerationConfig_init c =
     (if \<not> (should_generate_global c \<or> should_generate_individual c \<or> should_generate_aggregate c)
      then Inl No_strategy_set
      else if min_trips_threshold c < 1
      then Inl (Min_trips_threshold_must_be_positive (min_trips_threshold c))
      else if \<not> (1 \<le> batch_size c \<and> batch_size c \<le> 1000)
      then Inl (Batch_size_must_be_between_1_and_1000 (batch_size c))
      else Inr c)"

record ValhallaConfig =
  timeout_seconds :: int
  max_retries :: int
  retry_delay_seconds :: rat
  snap_radius_m :: int
  min_reachability_nodes :: int

record GenerationConfig =
  log_interval :: int

section \<open>Route generation (route_generator.py)\<close>

text \<open>
  The routing service is outside the program. What one \<open>session.post\<close> followed by
  \<open>raise_for_status\<close> and \<open>response.json()\<close> can do is one of:
  a decoded body, whose \<open>trip.legs\<close> list is kept (a missing \<open>shape\<close> is the
  empty string, a missing \<open>length\<close> or \<open>time\<close> is 0, as the \<open>.get\<close> defaults say);
  an \<open>HTTPError\<close> with its status code; another \<open>RequestException\<close> (timeout,
  connection reset), with \<open>str(e)\<close> and the class name; any other exception.
\<close>

record leg =
  shape :: string
  summary_length :: rat
  summary_time :: rat

datatype http_outcome =
    Response "leg list"
  | HTTPError int
  | RequestException string string
  | OtherException string string

record failed_route =
  failed_from :: string
  failed_to :: string
  reason :: string
  error_type :: string

text \<open>The generator's instance fields; \<open>sleeps\<close> logs every \<open>time.sleep\<close> call
  with its argument.\<close>

record generator_state =
  routes_generated :: int
  routes_failed :: int
  total_requests :: int
  failed_routes :: "failed_route list"
  sleeps :: "rat list"

definition initial_state :: generator_state where
  "initial_state =
     \<lparr>routes_generated = 0, routes_failed = 0, total_requests = 0, failed_routes = [], sleeps = []\<rparr>"

text \<open>The \<open>except Exception\<close> handler (lines 219 to 230) and the two handlers that
  append to the ledger share this update.\<close>

definition record_failure ::
  "StationCoordinate \<Rightarrow> StationCoordinate \<Rightarrow> string \<Rightarrow> string \<Rightarrow> generator_state \<Rightarrow> generator_state" where
  "record_failure from_station to_station why cls st =
     st\<lparr>failed_routes := failed_routes st @
            [\<lparr>failed_from = station_id from_station, failed_to = station_id to_station,
              reason = why, error_type = cls\<rparr>],
        routes_failed := routes_failed st + 1\<rparr>"

text \<open>
  Lines 122 to 163, run inside the \<open>try\<close>: the first leg is taken, its shape is decoded
  and encoded again by the polyline library (\<open>reencode\<close>, \<open>None\<close> when the library
  raises, then the original shape is used), the geometry is constructed, the success counter
  is incremented and the progress test \<open>routes_generated % log_interval\<close> is evaluated. An
  exception raised here (the constructor's \<open>ValueError\<close>, the \<open>ZeroDivisionError\<close> of
  the modulo) is caught by \<open>except Exception\<close>.
\<close>

definition accept_leg ::
  "GenerationConfig \<Rightarrow> (string \<Rightarrow> string option) \<Rightarrow> StationCoordinate \<Rightarrow> StationCoordinate \<Rightarrow>
   leg \<Rightarrow> generator_state \<Rightarrow> RouteGeometry option \<times> generator_state" where
  "accept_leg generation reencode from_station to_station l st =
     (let encoded_shape = shape l;
          verified_shape = (case reencode encoded_shape of Some s \<Rightarrow> s | None \<Rightarrow> encoded_shape);
          key = sorted_join (station_id from_station) (station_id to_station)
      in case RouteGeometry_init
                \<lparr>route_key = key,
                 geom_departure_station_id = station_id from_station,
                 geom_return_station_id = station_id to_station,
                 polyline = verified_shape,
                 distance_km = summary_length l,
                 duration_minutes = summary_time l / 60\<rparr> of
           Inl msg \<Rightarrow> (None, record_failure from_station to_station msg ''ValueError'' st)
         | Inr route_geometry \<Rightarrow>
             (let st1 = st\<lparr>routes_generated := routes_generated st + 1\<rparr>
              in if log_interval generation = 0
                 then (None, record_failure from_station to_station
                               ''integer modulo by zero'' ''ZeroDivisionError'' st1)
                 else (Some route_geometry, st1)))"

text \<open>
  The retry loop \<open>for attempt in range(1, max_retries + 1)\<close>, as a recursion over the
  attempt numbers still to run; \<open>post attempt\<close> is what the service does at that attempt.
  Running out of attempt numbers is line 232.
\<close>

fun attempts ::
  "ValhallaConfig \<Rightarrow> GenerationConfig \<Rightarrow> (string \<Rightarrow> string option) \<Rightarrow> (int \<Rightarrow> http_outcome) \<Rightarrow>
   StationCoordinate \<Rightarrow> StationCoordinate \<Rightarrow> int list \<Rightarrow> generator_state \<Rightarrow>
   RouteGeometry option \<times> generator_state" where
  "attempts valhalla generation reencode post from_station to_station [] st = (None, st)"
| "attempts valhalla generation reencode post from_station to_station (attempt # rest) st =
     (let st1 = st\<lparr>total_requests := total_requests st + 1\<rparr>
      in case post attempt of
           Response legs \<Rightarrow>
             (case legs of
                [] \<Rightarrow> (None, st1\<lparr>routes_failed := routes_failed st1 + 1\<rparr>)
              | l # _ \<Rightarrow> accept_leg generation reencode from_station to_station l st1)
         | HTTPError status_code \<Rightarrow>
             (if status_code = 400
              then (None, record_failure from_station to_station
                            ''Route not possible (HTTP 400)'' ''HTTPError'' st1)
              else if attempt < max_retries valhalla
              then attempts valhalla generation reencode post from_station to_station rest
                     (st1\<lparr>sleeps := sleeps st1 @ [retry_delay_seconds valhalla]\<rparr>)
              else (None, st1\<lparr>routes_failed := routes_failed st1 + 1\<rparr>))
         | RequestException msg cls \<Rightarrow>
             (if attempt < max_retries valhalla
              then attempts valhalla generation reencode post from_station to_station rest
                     (st1\<lparr>sleeps := sleeps st1 @ [retry_delay_seconds valhalla]\<rparr>)
              else (None, record_failure from_station to_station msg cls st1))
         | OtherException msg cls \<Rightarrow>
             (None, record_failure from_station to_station msg cls st1))"

definition generate_route ::
  "ValhallaConfig \<Rightarrow> GenerationConfig \<Rightarrow> (string \<Rightarrow> string option) \<Rightarrow> (int \<Rightarrow> http_outcome) \<Rightarrow>
   StationCoordinate \<Rightarrow> StationCoordinate \<Rightarrow> generator_state \<Rightarrow>
   RouteGeometry option \<times> generator_state" where
  "generate_route valhalla generation reencode post from_station to_station st =
     attempts valhalla generation reencode post from_station to_station [1..max_retries valhalla] st"

text \<open>
  \<open>generate_batch\<close>: each element of the batch carries, beside the two stations, what the
  service answers to the attempts made for it. The progress log and the clock do not
  change the result.
\<close>

fun generate_batch ::
  "ValhallaConfig \<Rightarrow> GenerationConfig \<Rightarrow> (string \<Rightarrow> string option) \<Rightarrow>
   (StationCoordinate \<times> StationCoordinate \<times> (int \<Rightarrow> http_outcome)) list \<Rightarrow> generator_state \<Rightarrow>
   RouteGeometry list \<times> generator_state" where
  "generate_batch valhalla generation reencode [] st = ([], st)"
| "generate_batch valhalla generation reencode ((from_station, to_station, post) # station_pairs) st =
     (case generate_route valhalla generation reencode post from_station to_station st of
        (route, st1) \<Rightarrow>
          (case generate_batch valhalla generation reencode station_pairs st1 of
             (routes, st2) \<Rightarrow>
               ((case route of Some g \<Rightarrow> [g] | None \<Rightarrow> []) @ routes, st2)))"

text \<open>
  The outcomes after which the source sleeps and tries again while attempts are left: an
  \<open>HTTPError\<close> other than 400 and any other \<open>RequestException\<close>.
\<close>

definition transient :: "http_outcome \<Rightarrow> bool" where
  "transient out = (case out of HTTPError status_code \<Rightarrow> status_code \<noteq> 400
                    | RequestException _ _ \<Rightarrow> True | _ \<Rightarrow> False)"

text \<open>One call counted once: a returned geometry on the success counter only, a
  \<open>None\<close> on the failure counter only.\<close>

definition counted_once :: "generator_state \<Rightarrow> RouteGeometry option \<Rightarrow> generator_state \<Rightarrow> bool" where
  "counted_once st r st1 \<longleftrightarrow>
     (case r of
        Some _ \<Rightarrow> routes_generated st1 = routes_generated st + 1 \<and> routes_failed st1 = routes_failed st
      | None \<Rightarrow> routes_generated st1 = routes_generated st \<and> routes_failed st1 = routes_failed st + 1)"

section \<open>Route analysis (route_analyzer.py)\<close>

text \<open>
  The trip table enters through its aggregate: \<open>rows\<close> is the result of
  \<^verbatim>\<open>SELECT departure_station_id, return_station_id, COUNT(*), AVG(..), AVG(..)
  FROM trips GROUP BY departure_station_id, return_station_id\<close>,
  one row per ordered station pair, in the order the database holds them (the source
  order). A count is a \<open>COUNT(*)\<close> of a group, so it is at least 1 in every row the
  database can deliver. \<open>ORDER BY\<close> and the window order are modelled as a stable sort
  of the rows. The connection check (\<open>RuntimeError\<close> when \<open>connect()\<close> was not
  called) and \<open>psycopg2.Error\<close> are outside the model.
\<close>

definition RouteStatistics_init :: "RouteStatistics \<Rightarrow> string + RouteStatistics" where
  "RouteStatistics_init r =
     (if trip_count r < 1 then Inl ''Trip count must be positive''
      else if avg_distance_m r < 0 then Inl ''Distance cannot be negative''
      else if avg_duration_s r < 0 then Inl ''Duration cannot be negative''
      else Inr r)"

text \<open>Building the \<open>RouteStatistics\<close> objects from the fetched rows: the first row
  whose constructor raises ends the call with that \<open>ValueError\<close>.\<close>

fun construct_all :: "RouteStatistics list \<Rightarrow> string + RouteStatistics list" where
  "construct_all [] = Inr []"
| "construct_all (r # rs) =
     (case RouteStatistics_init r of
        Inl e \<Rightarrow> Inl e
      | Inr route \<Rightarrow> (case construct_all rs of Inl e \<Rightarrow> Inl e | Inr routes \<Rightarrow> Inr (route # routes)))"

definition order_by_trip_count_desc :: "RouteStatistics list \<Rightarrow> RouteStatistics list" where
  "order_by_trip_count_desc rs = sort_key (\<lambda>r. - trip_count r) rs"

text \<open>\<open>WHERE departure_station_id != return_station_id\<close>, common to all queries.\<close>

definition route_stats :: "RouteStatistics list \<Rightarrow> RouteStatistics list" where
  "route_stats rows = filter (\<lambda>r. departure_station_id r \<noteq> return_station_id r) rows"

definition get_route_statistics :: "RouteStatistics list \<Rightarrow> int \<Rightarrow> string + RouteStatistics list" where
  "get_route_statistics rows min_trips =
     construct_all
       (order_by_trip_count_desc (filter (\<lambda>r. trip_count r \<ge> min_trips) (route_stats rows)))"



definition get_all_routes :: "RouteStatistics list \<Rightarrow> string + RouteStatistics list" where
  "get_all_routes rows = get_route_statistics rows 1"

subsection \<open>The per-station queries\<close>

text \<open>
  The \<open>ranked_routes\<close> common table expression: every row of \<open>route_stats\<close> with the
  total of its departure station, the running sum and the row number inside its partition
  (\<open>PARTITION BY departure_station_id ORDER BY trip_count DESC\<close>). The top-N query
  computes the row number only; it reads the same table.
\<close>

record ranked_route =
  ranked_row :: RouteStatistics
  total_trips :: int
  cumulative_trips :: int
  rank :: int

fun window :: "int \<Rightarrow> int \<Rightarrow> int \<Rightarrow> RouteStatistics list \<Rightarrow> ranked_route list" where
  "window station_total cumulative row_number [] = []"
| "window station_total cumulative row_number (r # rs) =
     \<lparr>ranked_row = r, total_trips = station_total,
      cumulative_trips = cumulative + trip_count r, rank = row_number + 1\<rparr>
     # window station_total (cumulative + trip_count r) (row_number + 1) rs"

definition station_partition :: "RouteStatistics list \<Rightarrow> string \<Rightarrow> RouteStatistics list" where
  "station_partition rows s =
     order_by_trip_count_desc (filter (\<lambda>r. departure_station_id r = s) (route_stats rows))"

definition ranked_routes :: "RouteStatistics list \<Rightarrow> ranked_route list" where
  "ranked_routes rows =
     concat (map (\<lambda>s. let part = station_partition rows s
                        in window (sum_list (map trip_count part)) 0 0 part)
                 (remdups (map departure_station_id (route_stats rows))))"

text \<open>\<open>ORDER BY departure_station_id, trip_count DESC\<close>.\<close>

definition order_by_station_trip_count :: "ranked_route list \<Rightarrow> ranked_route list" where
  "order_by_station_trip_count xs =
     sort_key (\<lambda>x. (departure_station_id (ranked_row x), - trip_count (ranked_row x))) xs"

text \<open>\<open>station_routes = defaultdict(list); station_routes[k].append(v)\<close>, the
  dictionary kept in insertion order.\<close>

fun dict_append :: "'k \<Rightarrow> 'v \<Rightarrow> ('k \<times> 'v list) list \<Rightarrow> ('k \<times> 'v list) list" where
  "dict_append k v [] = [(k, [v])]"
| "dict_append k v ((k', vs) # d) =
     (if k = k' then (k', vs @ [v]) # d else (k', vs) # dict_append k v d)"

definition group_by_station ::
  "RouteStatistics list \<Rightarrow> string + (string \<times> RouteStatistics list) list" where
  "group_by_station fetched =
     (case construct_all fetched of
        Inl e \<Rightarrow> Inl e
      | Inr routes \<Rightarrow> Inr (foldl (\<lambda>d route. dict_append (departure_station_id route) route d) [] routes))"


text \<open>\<open>WHERE (cumulative_trips::float / total_trips * 100) <= %s OR rank = 1\<close>.\<close>

definition get_routes_by_station_coverage ::
  "RouteStatistics list \<Rightarrow> rat \<Rightarrow> string + (string \<times> RouteStatistics list) list" where
  "get_routes_by_station_coverage rows coverage_pct =
     group_by_station
       (map ranked_row (order_by_station_trip_count
          (filter (\<lambda>x. of_int (cumulative_trips x) / of_int (total_trips x) * 100 \<le> coverage_pct
                        \<or> rank x = 1)
                  (ranked_routes rows))))"

subsection \<open>Global coverage\<close>

text \<open>The accumulation loop of \<open>get_global_coverage_routes\<close> (lines 334 to 341).\<close>

fun accumulate :: "rat \<Rightarrow> int \<Rightarrow> RouteStatistics list \<Rightarrow> RouteStatistics list \<Rightarrow> RouteStatistics list" where
  "accumulate target_trips cumulative selected_routes [] = selected_routes"
| "accumulate target_trips cumulative selected_routes (route # rest) =
     (let cumulative1 = cumulative + trip_count route;
          selected1 = selected_routes @ [route]
      in if of_int cumulative1 \<ge> target_trips then selected1
         else accumulate target_trips cumulative1 selected1 rest)"


subsection \<open>Bidirectional deduplication\<close>





section \<open>Organizing by station (file_writer.py)\<close>








section \<open>The selections and entries as the specification words them\<close>



text \<open>
  The per-station coverage selection as the specification words it, for comparison with
  the query: the pairs departing from the station, sorted descending by trip count,
  accumulated until cumulative / station total reaches pct / 100, the pair that crosses
  the threshold included.
\<close>

definition claimed_station_coverage :: "RouteStatistics list \<Rightarrow> rat \<Rightarrow> string \<Rightarrow> RouteStatistics list" where
  "claimed_station_coverage rows pct s =
     (let part = station_partition rows s;
          station_total = sum_list (map trip_count part)
      in accumulate (of_int station_total * (pct / 100)) 0 [] part)"




section \<open>Concrete inputs\<close>

definition station_030 :: StationCoordinate where
  "station_030 = \<lparr>station_id = ''030'', latitude = 60, longitude = 25\<rparr>"

definition station_067 :: StationCoordinate where
  "station_067 = \<lparr>station_id = ''067'', latitude = 60, longitude = 25\<rparr>"

definition default_valhalla :: ValhallaConfig where
  "default_valhalla =
     \<lparr>timeout_seconds = 30, max_retries = 3, retry_delay_seconds = 1,
      snap_radius_m = 100, min_reachability_nodes = 20\<rparr>"

definition default_generation :: GenerationConfig where
  "default_generation = \<lparr>log_interval = 10\<rparr>"

definition one_leg :: leg where
  "one_leg = \<lparr>shape = ''abc'', summary_length = 2, summary_time = 600\<rparr>"

definition top_5 :: RouteSelectionStrategy where
  "top_5 = \<lparr>selection_type = TOP_N, top_n = Some 5, coverage_percentage = None\<rparr>"

definition coverage_80 :: RouteSelectionStrategy where
  "coverage_80 = \<lparr>selection_type = PERCENTAGE, top_n = None, coverage_percentage = Some 80\<rparr>"

definition default_config :: RouteGenerationConfig where
  "default_config =
     \<lparr>global_strategy = Some top_5, individual_strategy = Some coverage_80,
      per_station_aggregate_strategy = None, min_trips_threshold = 1, batch_size = 50,
      cfg_log_interval = 10, costing = ''bicycle'', bicycle_type = ''Road''\<rparr>"

definition no_strategy_config :: RouteGenerationConfig where
  "no_strategy_config =
     default_config\<lparr>global_strategy := None, individual_strategy := None\<rparr>"

definition timeout_outcome :: "int \<Rightarrow> http_outcome" where
  "timeout_outcome a = RequestException ''Read timed out'' ''ReadTimeout''"

definition server_error_then_no_route :: "int \<Rightarrow> http_outcome" where
  "server_error_then_no_route a = (if a = 1 then HTTPError 500 else Response [])"

definition zero_log_interval :: GenerationConfig where
  "zero_log_interval = \<lparr>log_interval = 0\<rparr>"

definition server_error :: "int \<Rightarrow> http_outcome" where
  "server_error a = HTTPError 500"

definition stat :: "string \<Rightarrow> string \<Rightarrow> int \<Rightarrow> RouteStatistics" where
  "stat a b n =
     \<lparr>departure_station_id = a, return_station_id = b, trip_count = n,
      avg_distance_m = 2500, avg_duration_s = 600\<rparr>"



definition station_coverage_scenario :: "RouteStatistics list" where
  "station_coverage_scenario =
     [stat ''030'' ''067'' 50, stat ''030'' ''045'' 30, stat ''030'' ''099'' 15, stat ''030'' ''120'' 5]"




section \<open>Canonical keys\<close>




lemma upto_1_3: "[1..3::int] = [1, 2, 3]"
  by (simp add: upto.simps)




section \<open>Configuration errors\<close>

text \<open>
  Claim C9. \<open>create_top_n\<close> with n below 1, \<open>create_percentage\<close> with a percentage
  outside (0, 100] and a generation configuration with none of its three strategies set
  are rejected by the constructor itself (the result is the error, no configuration value
  exists that a selection, a query or a request could use); a positive n, a percentage
  in (0, 100], and a configuration with a strategy, a positive trip threshold and a batch
  size between 1 and 1000 are accepted unchanged.
\<close>

theorem configuration_rejected_at_construction:
  "(n_bad < 1 \<longrightarrow> create_top_n n_bad = Inl (N_must_be_positive n_bad))
   \<and> (1 \<le> n_ok \<longrightarrow>
        create_top_n n_ok
        = Inr \<lparr>selection_type = TOP_N, top_n = Some n_ok, coverage_percentage = None\<rparr>)
   \<and> (\<not> (0 < pct_bad \<and> pct_bad \<le> 100) \<longrightarrow>
        create_percentage pct_bad = Inl (Percentage_must_be_between_0_and_100 pct_bad))
   \<and> (0 < pct_ok \<and> pct_ok \<le> 100 \<longrightarrow>
        create_percentage pct_ok
        = Inr \<lparr>selection_type = PERCENTAGE, top_n = None, coverage_percentage = Some pct_ok\<rparr>)
   \<and> (global_strategy c_bad = None \<and> individual_strategy c_bad = None
        \<and> per_station_aggregate_strategy c_bad = None \<longrightarrow>
        RouteGenerationConfig_init c_bad = Inl No_strategy_set)
   \<and> ((global_strategy c_ok \<noteq> None \<or> individual_strategy c_ok \<noteq> None
         \<or> per_station_aggregate_strategy c_ok \<noteq> None)
        \<and> 1 \<le> min_trips_threshold c_ok \<and> 1 \<le> batch_size c_ok \<and> batch_size c_ok \<le> 1000 \<longrightarrow>
        RouteGenerationConfig_init c_ok = Inr c_ok)"
  by (auto simp: create_top_n_def create_percentage_def RouteGenerationConfig_init_def
      should_generate_global_def should_generate_individual_def should_generate_aggregate_def)

theorem configuration_rejected_at_construction_witness:
  "create_top_n 0 = Inl (N_must_be_positive 0)
   \<and> create_top_n 5 = Inr top_5
   \<and> create_percentage 0 = Inl (Percentage_must_be_between_0_and_100 0)
   \<and> create_percentage 80 = Inr coverage_80
   \<and> RouteGenerationConfig_init no_strategy_config = Inl No_strategy_set
   \<and> RouteGenerationConfig_init default_config = Inr default_config"
  using configuration_rejected_at_construction
    [of 0 5 0 80 no_strategy_config default_config]
  by (simp add: top_5_def coverage_80_def default_config_def no_strategy_config_def)

section \<open>The retry loop\<close>

lemma attempts_retry_prefix:
  assumes "\<forall>a\<in>set pre. transient (post a) \<and> a < max_retries valhalla"
  shows "attempts valhalla generation reencode post from_station to_station (pre @ rest) st
       = attempts valhalla generation reencode post from_station to_station rest
           (st\<lparr>total_requests := total_requests st + int (length pre),
               sleeps := sleeps st @ replicate (length pre) (retry_delay_seconds valhalla)\<rparr>)"
  using assms
proof (induction pre arbitrary: st)
  case Nil
  then show ?case by simp
next
  case (Cons a pre)
  have tr: "transient (post a)" and lt: "a < max_retries valhalla"
    using Cons.prems by auto
  have rest: "\<forall>a\<in>set pre. transient (post a) \<and> a < max_retries valhalla"
    using Cons.prems by auto
  show ?case
  proof (cases "post a")
    case (HTTPError code)
    with tr have "code \<noteq> 400" by (simp add: transient_def)
    with HTTPError lt show ?thesis
      by (simp add: Let_def Cons.IH[OF rest] replicate_append_same add.assoc)
  next
    case (RequestException m c)
    with lt show ?thesis
      by (simp add: Let_def Cons.IH[OF rest] replicate_append_same add.assoc)
  qed (use tr in \<open>simp_all add: transient_def\<close>)
qed

lemma attempts_definitive:
  assumes "\<not> transient (post a)"
  shows "attempts valhalla generation reencode post from_station to_station (a # rest) st
       = attempts valhalla generation reencode post from_station to_station [a] st"
  using assms by (cases "post a") (auto simp: Let_def transient_def split: list.splits)

lemma attempts_last:
  assumes "\<not> a < max_retries valhalla"
  shows "attempts valhalla generation reencode post from_station to_station (a # rest) st
       = attempts valhalla generation reencode post from_station to_station [a] st"
  using assms by (cases "post a") (auto simp: Let_def split: list.splits)

lemma upto_until:
  assumes "1 \<le> k" "k \<le> m"
  shows "[1..m] = [1..k - 1] @ k # [k + 1..m]"
  using assms by (simp add: upto_split3)

lemma length_upto_1: "1 \<le> k \<Longrightarrow> length [1..k - 1] = nat (k - 1)"
  by simp

text \<open>k - 1 retried attempts, then attempt k concludes.\<close>
lemma generate_route_until:
  assumes "1 \<le> k" "k \<le> max_retries valhalla"
    and "\<forall>a. 1 \<le> a \<and> a < k \<longrightarrow> transient (post a)"
    and "\<not> transient (post k) \<or> k = max_retries valhalla"
  shows "generate_route valhalla generation reencode post from_station to_station st
       = attempts valhalla generation reencode post from_station to_station [k]
           (st\<lparr>total_requests := total_requests st + (k - 1),
               sleeps := sleeps st @ replicate (nat (k - 1)) (retry_delay_seconds valhalla)\<rparr>)"
proof -
  have pre: "\<forall>a\<in>set [1..k - 1]. transient (post a) \<and> a < max_retries valhalla"
    using assms by auto
  have "generate_route valhalla generation reencode post from_station to_station st
      = attempts valhalla generation reencode post from_station to_station (k # [k + 1..max_retries valhalla])
           (st\<lparr>total_requests := total_requests st + int (length [1..k - 1]),
               sleeps := sleeps st @ replicate (length [1..k - 1]) (retry_delay_seconds valhalla)\<rparr>)"
    unfolding generate_route_def upto_until[OF assms(1,2)]
    by (rule attempts_retry_prefix[OF pre])
  also have "\<dots> = attempts valhalla generation reencode post from_station to_station [k]
           (st\<lparr>total_requests := total_requests st + int (length [1..k - 1]),
               sleeps := sleeps st @ replicate (length [1..k - 1]) (retry_delay_seconds valhalla)\<rparr>)"
    using assms(4) attempts_definitive attempts_last by (metis order_less_irrefl)
  finally show ?thesis
    using assms(1) by simp
qed

lemma accept_leg_requests:
  "total_requests (snd (accept_leg generation reencode from_station to_station l st)) = total_requests st"
  "sleeps (snd (accept_leg generation reencode from_station to_station l st)) = sleeps st"
  by (auto simp: accept_leg_def Let_def record_failure_def split: sum.splits)

lemma attempts_single:
  assumes "\<not> transient (post k)"
  shows "total_requests (snd (attempts valhalla generation reencode post from_station to_station [k] st))
         = total_requests st + 1"
    and "sleeps (snd (attempts valhalla generation reencode post from_station to_station [k] st))
         = sleeps st"
  using assms
  by (cases "post k"; auto simp: Let_def transient_def record_failure_def accept_leg_requests
        split: list.splits)+

text \<open>
  Claim C3. (1) An HTTP 400 answer at attempt k, after k - 1 retried attempts, ends the
  call at that attempt: \<open>None\<close> is returned, the failure is counted and entered in the
  ledger as "Route not possible (HTTP 400)", and exactly k requests were issued.
  (2) When every attempt ends in a transport error, the call issues exactly
  \<open>max_retries\<close> requests (3 for \<open>max_retries = 3\<close>), sleeps the fixed delay between
  two attempts (\<open>max_retries - 1\<close> times), and ends as a counted failure whose ledger entry
  holds the last error. (3) Whatever ends attempt j otherwise than by a transient error is
  never followed by another attempt: the request counter has advanced by exactly j and only
  the j - 1 delays before it were slept.
\<close>

theorem retry_protocol:
  "(1 \<le> k \<and> k \<le> max_retries valhalla
      \<and> (\<forall>a. 1 \<le> a \<and> a < k \<longrightarrow> transient (post_400 a)) \<and> post_400 k = HTTPError 400 \<longrightarrow>
    generate_route valhalla generation reencode post_400 from_station to_station st
    = (None,
       st\<lparr>total_requests := total_requests st + k,
          sleeps := sleeps st @ replicate (nat (k - 1)) (retry_delay_seconds valhalla),
          failed_routes := failed_routes st @
            [\<lparr>failed_from = station_id from_station, failed_to = station_id to_station,
              reason = ''Route not possible (HTTP 400)'', error_type = ''HTTPError''\<rparr>],
          routes_failed := routes_failed st + 1\<rparr>))
   \<and> (1 \<le> max_retries valhalla \<and> (\<forall>a. post_err a = RequestException (msg a) (cls a)) \<longrightarrow>
    generate_route valhalla generation reencode post_err from_station to_station st
    = (None,
       st\<lparr>total_requests := total_requests st + max_retries valhalla,
          sleeps := sleeps st @
            replicate (nat (max_retries valhalla - 1)) (retry_delay_seconds valhalla),
          failed_routes := failed_routes st @
            [\<lparr>failed_from = station_id from_station, failed_to = station_id to_station,
              reason = msg (max_retries valhalla), error_type = cls (max_retries valhalla)\<rparr>],
          routes_failed := routes_failed st + 1\<rparr>))
   \<and> (1 \<le> j \<and> j \<le> max_retries valhalla
      \<and> (\<forall>a. 1 \<le> a \<and> a < j \<longrightarrow> transient (post a)) \<and> \<not> transient (post j) \<longrightarrow>
    total_requests (snd (generate_route valhalla generation reencode post from_station to_station st))
      = total_requests st + j
    \<and> sleeps (snd (generate_route valhalla generation reencode post from_station to_station st))
      = sleeps st @ replicate (nat (j - 1)) (retry_delay_seconds valhalla))"
proof (intro conjI impI)
  assume h: "1 \<le> k \<and> k \<le> max_retries valhalla
      \<and> (\<forall>a. 1 \<le> a \<and> a < k \<longrightarrow> transient (post_400 a)) \<and> post_400 k = HTTPError 400"
  then have "\<not> transient (post_400 k)" by (simp add: transient_def)
  with h have "generate_route valhalla generation reencode post_400 from_station to_station st
       = attempts valhalla generation reencode post_400 from_station to_station [k]
           (st\<lparr>total_requests := total_requests st + (k - 1),
               sleeps := sleeps st @ replicate (nat (k - 1)) (retry_delay_seconds valhalla)\<rparr>)"
    by (intro generate_route_until) auto
  with h show "generate_route valhalla generation reencode post_400 from_station to_station st
    = (None,
       st\<lparr>total_requests := total_requests st + k,
          sleeps := sleeps st @ replicate (nat (k - 1)) (retry_delay_seconds valhalla),
          failed_routes := failed_routes st @
            [\<lparr>failed_from = station_id from_station, failed_to = station_id to_station,
              reason = ''Route not possible (HTTP 400)'', error_type = ''HTTPError''\<rparr>],
          routes_failed := routes_failed st + 1\<rparr>)"
    by (simp add: Let_def record_failure_def)
next
  assume h: "1 \<le> max_retries valhalla \<and> (\<forall>a. post_err a = RequestException (msg a) (cls a))"
  then have "\<forall>a. 1 \<le> a \<and> a < max_retries valhalla \<longrightarrow> transient (post_err a)"
    by (simp add: transient_def)
  with h have "generate_route valhalla generation reencode post_err from_station to_station st
       = attempts valhalla generation reencode post_err from_station to_station [max_retries valhalla]
           (st\<lparr>total_requests := total_requests st + (max_retries valhalla - 1),
               sleeps := sleeps st @ replicate (nat (max_retries valhalla - 1)) (retry_delay_seconds valhalla)\<rparr>)"
    by (intro generate_route_until) auto
  with h show "generate_route valhalla generation reencode post_err from_station to_station st
    = (None,
       st\<lparr>total_requests := total_requests st + max_retries valhalla,
          sleeps := sleeps st @
            replicate (nat (max_retries valhalla - 1)) (retry_delay_seconds valhalla),
          failed_routes := failed_routes st @
            [\<lparr>failed_from = station_id from_station, failed_to = station_id to_station,
              reason = msg (max_retries valhalla), error_type = cls (max_retries valhalla)\<rparr>],
          routes_failed := routes_failed st + 1\<rparr>)"
    by (simp add: Let_def record_failure_def)
next
  assume h: "1 \<le> j \<and> j \<le> max_retries valhalla
      \<and> (\<forall>a. 1 \<le> a \<and> a < j \<longrightarrow> transient (post a)) \<and> \<not> transient (post j)"
  then have eq: "generate_route valhalla generation reencode post from_station to_station st
       = attempts valhalla generation reencode post from_station to_station [j]
           (st\<lparr>total_requests := total_requests st + (j - 1),
               sleeps := sleeps st @ replicate (nat (j - 1)) (retry_delay_seconds valhalla)\<rparr>)"
    by (intro generate_route_until) auto
  from h have nt: "\<not> transient (post j)" by simp
  show "total_requests (snd (generate_route valhalla generation reencode post from_station to_station st))
      = total_requests st + j"
    unfolding eq attempts_single(1)[of post j, OF nt] by simp
  show "sleeps (snd (generate_route valhalla generation reencode post from_station to_station st))
      = sleeps st @ replicate (nat (j - 1)) (retry_delay_seconds valhalla)"
    unfolding eq attempts_single(2)[of post j, OF nt] by simp
qed

theorem retry_protocol_witness:
  "generate_route default_valhalla default_generation Some (\<lambda>a. HTTPError 400)
     station_030 station_067 initial_state
   = (None, initial_state
        \<lparr>total_requests := 1,
         failed_routes := [\<lparr>failed_from = ''030'', failed_to = ''067'',
            reason = ''Route not possible (HTTP 400)'', error_type = ''HTTPError''\<rparr>],
         routes_failed := 1\<rparr>)
   \<and> generate_route default_valhalla default_generation Some timeout_outcome
        station_030 station_067 initial_state
     = (None, initial_state
        \<lparr>total_requests := 3, sleeps := [1, 1],
         failed_routes := [\<lparr>failed_from = ''030'', failed_to = ''067'',
            reason = ''Read timed out'', error_type = ''ReadTimeout''\<rparr>],
         routes_failed := 1\<rparr>)
   \<and> total_requests (snd (generate_route default_valhalla default_generation Some
        server_error_then_no_route station_030 station_067 initial_state)) = 2
   \<and> sleeps (snd (generate_route default_valhalla default_generation Some
        server_error_then_no_route station_030 station_067 initial_state)) = [1]"
  using retry_protocol
    [of 1 default_valhalla "\<lambda>a. HTTPError 400" default_generation Some station_030 station_067
        initial_state timeout_outcome "\<lambda>a. ''Read timed out''" "\<lambda>a. ''ReadTimeout''"
        2 server_error_then_no_route]
  by (simp add: default_valhalla_def initial_state_def station_030_def station_067_def
      timeout_outcome_def server_error_then_no_route_def transient_def numeral_eq_Suc)

section \<open>Counters and the failure ledger\<close>

lemma accept_leg_counted_once:
  assumes "log_interval generation \<noteq> 0"
  shows "counted_once st (fst (accept_leg generation reencode from_station to_station l st))
           (snd (accept_leg generation reencode from_station to_station l st))"
  using assms
  by (auto simp: counted_once_def accept_leg_def Let_def record_failure_def split: sum.splits)

lemma attempts_counters:
  assumes "log_interval generation \<noteq> 0" and "as \<noteq> []" and "\<not> last as < max_retries valhalla"
  shows "counted_once st
           (fst (attempts valhalla generation reencode post from_station to_station as st))
           (snd (attempts valhalla generation reencode post from_station to_station as st))
       \<and> total_requests st + 1
           \<le> total_requests (snd (attempts valhalla generation reencode post from_station to_station as st))
       \<and> total_requests (snd (attempts valhalla generation reencode post from_station to_station as st))
           \<le> total_requests st + int (length as)"
  using assms(2,3)
proof (induction as arbitrary: st)
  case Nil
  then show ?case by simp
next
  case (Cons a as)
  let ?st1 = "st\<lparr>total_requests := total_requests st + 1\<rparr>"
  let ?st2 = "?st1\<lparr>sleeps := sleeps ?st1 @ [retry_delay_seconds valhalla]\<rparr>"
  have retry: "as \<noteq> []" if "a < max_retries valhalla"
    using that Cons.prems by auto
  have IH: "counted_once ?st2
           (fst (attempts valhalla generation reencode post from_station to_station as ?st2))
           (snd (attempts valhalla generation reencode post from_station to_station as ?st2))
       \<and> total_requests ?st2 + 1
           \<le> total_requests (snd (attempts valhalla generation reencode post from_station to_station as ?st2))
       \<and> total_requests (snd (attempts valhalla generation reencode post from_station to_station as ?st2))
           \<le> total_requests ?st2 + int (length as)" if "a < max_retries valhalla"
    using Cons.IH[of ?st2] retry[OF that] Cons.prems by auto
  have acc: "counted_once ?st1 (fst (accept_leg generation reencode from_station to_station l ?st1))
           (snd (accept_leg generation reencode from_station to_station l ?st1))" for l
    by (rule accept_leg_counted_once[OF assms(1)])
  show ?case
  proof (cases "post a")
    case (Response legs)
    show ?thesis
    proof (cases legs)
      case Nil
      with Response show ?thesis by (simp add: Let_def counted_once_def)
    next
      case (Cons l ls)
      with Response acc[of l] show ?thesis
        by (simp add: Let_def counted_once_def accept_leg_requests split: option.splits)
    qed
  next
    case (HTTPError code)
    then show ?thesis
      using IH by (auto simp: Let_def counted_once_def record_failure_def split: option.splits)
  next
    case (RequestException m c)
    then show ?thesis
      using IH by (auto simp: Let_def counted_once_def record_failure_def split: option.splits)
  next
    case (OtherException m c)
    then show ?thesis
      by (simp add: Let_def counted_once_def record_failure_def)
  qed
qed

lemma generate_route_counters:
  assumes "1 \<le> max_retries valhalla" and "log_interval generation \<noteq> 0"
    and "generate_route valhalla generation reencode post from_station to_station st = (r, st1)"
  shows "counted_once st r st1"
    and "total_requests st + 1 \<le> total_requests st1"
    and "total_requests st1 \<le> total_requests st + max_retries valhalla"
proof -
  have ne: "[1..max_retries valhalla] \<noteq> []" using assms(1) by simp
  have "last [1..max_retries valhalla] = max_retries valhalla"
    using assms(1) by (simp add: upto_rec2)
  then have l: "\<not> last [1..max_retries valhalla] < max_retries valhalla" by simp
  show "counted_once st r st1" "total_requests st + 1 \<le> total_requests st1"
    "total_requests st1 \<le> total_requests st + max_retries valhalla"
    using attempts_counters[OF assms(2) ne l, of st reencode post from_station to_station] assms(1,3)
    by (simp_all add: generate_route_def)
qed

lemma generate_batch_counters:
  assumes "1 \<le> max_retries valhalla" and "log_interval generation \<noteq> 0"
    and "generate_batch valhalla generation reencode station_pairs st = (routes, st1)"
  shows "int (length routes) = routes_generated st1 - routes_generated st
       \<and> routes_generated st1 + routes_failed st1
           = routes_generated st + routes_failed st + int (length station_pairs)
       \<and> routes_generated st1 + routes_failed st1 - (routes_generated st + routes_failed st)
           \<le> total_requests st1 - total_requests st
       \<and> total_requests st1 - total_requests st \<le> int (length station_pairs) * max_retries valhalla"
  using assms(3)
proof (induction station_pairs arbitrary: st routes st1)
  case Nil
  then show ?case by simp
next
  case (Cons p ps)
  obtain from_station to_station post where p: "p = (from_station, to_station, post)"
    by (cases p) auto
  obtain r st2 where g: "generate_route valhalla generation reencode post from_station to_station st = (r, st2)"
    by (cases "generate_route valhalla generation reencode post from_station to_station st") auto
  obtain rs st3 where b: "generate_batch valhalla generation reencode ps st2 = (rs, st3)"
    by (cases "generate_batch valhalla generation reencode ps st2") auto
  from Cons.prems p g b have res: "routes = (case r of Some g \<Rightarrow> [g] | None \<Rightarrow> []) @ rs" "st1 = st3"
    by auto
  note c = generate_route_counters[OF assms(1,2) g]
  note ih = Cons.IH[OF b]
  show ?case
    using c ih unfolding res
    by (cases r) (auto simp: counted_once_def algebra_simps)
qed

lemma generate_route_zero_log_interval:
  "generate_route default_valhalla zero_log_interval Some (\<lambda>_. Response [one_leg])
     station_030 station_067 initial_state
   = (None, initial_state
        \<lparr>routes_generated := 1, routes_failed := 1, total_requests := 1,
         failed_routes := [\<lparr>failed_from = ''030'', failed_to = ''067'',
            reason = ''integer modulo by zero'', error_type = ''ZeroDivisionError''\<rparr>]\<rparr>)"
  by (simp add: generate_route_def default_valhalla_def zero_log_interval_def upto_1_3 Let_def
      accept_leg_def RouteGeometry_init_def one_leg_def station_067_def station_030_def
      sorted_join_def initial_state_def record_failure_def)

text \<open>
  Claim C5, evaluated where it fails. A batch of two pairs: the service answers the first
  with a body without legs (\<open>no_route\<close>), the second with HTTP 500 on each of the three
  attempts (retries exhausted). Both failures are counted, the batch runs to its end, and
  the failure ledger stays empty: neither path appends to \<open>failed_routes\<close>.
\<close>

theorem failures_missing_from_ledger:
  "generate_batch default_valhalla default_generation Some
     [(station_030, station_067, \<lambda>_. Response []), (station_067, station_030, server_error)]
     initial_state
   = ([], initial_state\<lparr>routes_failed := 2, total_requests := 4, sleeps := [1, 1]\<rparr>)
   \<and> failed_routes (snd (generate_batch default_valhalla default_generation Some
        [(station_030, station_067, \<lambda>_. Response []), (station_067, station_030, server_error)]
        initial_state)) = []"
  by (simp add: generate_route_def default_valhalla_def default_generation_def upto_1_3 Let_def
      server_error_def initial_state_def)

text \<open>
  Claim C10, evaluated where it fails. With \<open>log_interval = 0\<close> a call whose request
  succeeds increments \<open>routes_generated\<close>, then raises \<open>ZeroDivisionError\<close> in the
  progress test, is caught by \<open>except Exception\<close>, increments \<open>routes_failed\<close> as well
  and returns \<open>None\<close>: one call, both counters incremented, and a batch result of
  length 0 against a success counter of 1. (For every other \<open>log_interval\<close> the counters
  behave as claimed: \<open>generate_route_counters\<close>, \<open>generate_batch_counters\<close>.)
\<close>

theorem zero_log_interval_counts_twice:
  "generate_batch default_valhalla zero_log_interval Some
     [(station_030, station_067, \<lambda>_. Response [one_leg])] initial_state
   = ([], initial_state
        \<lparr>routes_generated := 1, routes_failed := 1, total_requests := 1,
         failed_routes := [\<lparr>failed_from = ''030'', failed_to = ''067'',
            reason = ''integer modulo by zero'', error_type = ''ZeroDivisionError''\<rparr>]\<rparr>)"
  by (simp add: generate_route_zero_log_interval)

section \<open>Global coverage selection\<close>

lemma construct_all_valid:
  assumes "\<forall>r\<in>set rs. valid_statistics r"
  shows "construct_all rs = Inr rs"
  using assms by (induction rs) (auto simp: RouteStatistics_init_def valid_statistics_def)









section \<open>Per-station queries and top-N selection\<close>

lemma dict_append_keys:
  "map fst (dict_append k v d) = (if k \<in> fst ` set d then map fst d else map fst d @ [k])"
  by (induction d) (auto split: if_splits)

lemma dict_append_distinct: "distinct (map fst d) \<Longrightarrow> distinct (map fst (dict_append k v d))"
  by (simp add: dict_append_keys)

lemma map_of_dict_append:
  "distinct (map fst d) \<Longrightarrow>
   map_of (dict_append k v d) = (map_of d)(k \<mapsto> (case map_of d k of None \<Rightarrow> [] | Some vs \<Rightarrow> vs) @ [v])"
proof (induction d)
  case Nil
  then show ?case by simp
next
  case (Cons p d)
  obtain k' vs where p: "p = (k', vs)" by (cases p)
  show ?case
  proof (cases "k = k'")
    case True
    then show ?thesis using p by (auto simp: fun_eq_iff)
  next
    case False
    then show ?thesis using p Cons by (auto simp: fun_eq_iff)
  qed
qed

lemma group_foldl:
  assumes "distinct (map fst d)"
  shows "distinct (map fst (foldl (\<lambda>d r. dict_append (key r) r d) d xs))
       \<and> map_of (foldl (\<lambda>d r. dict_append (key r) r d) d xs) s
         = (case map_of d s of
              None \<Rightarrow> (if filter (\<lambda>r. key r = s) xs = [] then None
                        else Some (filter (\<lambda>r. key r = s) xs))
            | Some vs \<Rightarrow> Some (vs @ filter (\<lambda>r. key r = s) xs))"
  using assms
proof (induction xs arbitrary: d)
  case Nil
  then show ?case by (simp split: option.splits)
next
  case (Cons x xs)
  have d': "distinct (map fst (dict_append (key x) x d))"
    using Cons.prems by (rule dict_append_distinct)
  show ?case
    using Cons.IH[OF d'] Cons.prems
    by (auto simp: map_of_dict_append split: option.splits)
qed


lemma window_rows: "map ranked_row (window t c k part) = part"
  by (induction part arbitrary: c k) auto

lemma filter_concat_keyed:
  assumes "distinct ss" and "\<forall>s'\<in>set ss. \<forall>x\<in>set (f s'). g x = s'"
  shows "filter (\<lambda>x. g x = s) (concat (map f ss)) = (if s \<in> set ss then f s else [])"
  using assms
proof (induction ss)
  case Nil
  then show ?case by simp
next
  case (Cons a ss)
  have a: "filter (\<lambda>x. g x = s) (f a) = (if s = a then f a else [])"
    using Cons.prems(2) by (auto intro!: filter_True filter_False)
  have ih: "filter (\<lambda>x. g x = s) (concat (map f ss)) = (if s \<in> set ss then f s else [])"
    using Cons by auto
  show ?case
    using a ih Cons.prems(1) by auto
qed

lemma sorted_map_pair:
  "sorted (map f xs) \<Longrightarrow> sorted (map (\<lambda>x. (c, f x)) xs)"
  by (induction xs) (auto simp: less_eq_prod_def)

lemma sorted_desc_partition: "sorted (map (\<lambda>r. - trip_count r) (station_partition rows s))"
  by (simp add: station_partition_def order_by_trip_count_desc_def sorted_sort_key)

lemma station_partition_dep:
  "r \<in> set (station_partition rows s) \<Longrightarrow> departure_station_id r = s"
  by (simp add: station_partition_def order_by_trip_count_desc_def)

lemma station_partition_subset:
  "set (station_partition rows s) \<subseteq> set rows"
  by (auto simp: station_partition_def order_by_trip_count_desc_def route_stats_def)

text \<open>What a per-station query delivers for one station, for any row condition.\<close>

lemma per_station_rows:
  "filter (\<lambda>r. departure_station_id r = s)
     (map ranked_row (order_by_station_trip_count (filter keep (ranked_routes rows))))
   = (if s \<in> departure_station_id ` set (route_stats rows)
      then map ranked_row
             (filter keep (window (sum_list (map trip_count (station_partition rows s))) 0 0
                             (station_partition rows s)))
      else [])"
proof -
  define chunk where "chunk = (\<lambda>s. filter keep
     (window (sum_list (map trip_count (station_partition rows s))) 0 0 (station_partition rows s)))"
  let ?ss = "remdups (map departure_station_id (route_stats rows))"
  let ?key = "\<lambda>x. (departure_station_id (ranked_row x), - trip_count (ranked_row x))"
  have F: "filter keep (ranked_routes rows) = concat (map chunk ?ss)"
    by (simp add: ranked_routes_def chunk_def filter_concat comp_def Let_def)
  have rows_of: "ranked_row ` set (chunk s') \<subseteq> set (station_partition rows s')" for s'
  proof -
    have "ranked_row ` set (chunk s') \<subseteq> set (map ranked_row (window (sum_list (map trip_count (station_partition rows s'))) 0 0
                                 (station_partition rows s')))"
      unfolding chunk_def by auto
    then show ?thesis by (simp only: window_rows)
  qed
  have dep: "\<forall>s'\<in>set ?ss. \<forall>x\<in>set (chunk s'). departure_station_id (ranked_row x) = s'"
    using rows_of station_partition_dep by blast
  have sel: "filter (\<lambda>x. departure_station_id (ranked_row x) = s) (concat (map chunk ?ss))
           = (if s \<in> set ?ss then chunk s else [])"
    by (rule filter_concat_keyed[OF _ dep]) simp
  have "sorted (map (\<lambda>r. - trip_count r) (map ranked_row (window t 0 0 (station_partition rows s))))" for t
    by (simp only: window_rows sorted_desc_partition)
  then have "sorted (map (\<lambda>x. - trip_count (ranked_row x)) (window t 0 0 (station_partition rows s)))" for t
    by (simp add: comp_def)
  then have "sorted (map (\<lambda>x. - trip_count (ranked_row x)) (chunk s))"
    unfolding chunk_def by (simp add: sorted_map sorted_wrt_filter)
  then have "sorted (map (\<lambda>x. (s, - trip_count (ranked_row x))) (chunk s))"
    by (rule sorted_map_pair)
  moreover have "map ?key (chunk s) = map (\<lambda>x. (s, - trip_count (ranked_row x))) (chunk s)"
    using rows_of[of s] station_partition_dep by (intro map_cong) auto
  ultimately have "sorted (map ?key (chunk s))"
    by (simp only:)
  then have srt: "sort_key ?key (chunk s) = chunk s"
    by (rule sort_key_id_if_sorted)
  have "filter (\<lambda>r. departure_station_id r = s)
           (map ranked_row (order_by_station_trip_count (filter keep (ranked_routes rows))))
       = map ranked_row (sort_key ?key (filter (\<lambda>x. departure_station_id (ranked_row x) = s)
            (filter keep (ranked_routes rows))))"
    by (simp add: order_by_station_trip_count_def filter_map comp_def filter_sort)
  also have "\<dots> = (if s \<in> set ?ss then map ranked_row (chunk s) else [])"
    unfolding F sel using srt by simp
  finally show ?thesis by (simp add: chunk_def)
qed



lemma group_by_station_valid:
  assumes "\<forall>r\<in>set fetched. valid_statistics r"
  shows "\<exists>d. group_by_station fetched = Inr d \<and> distinct (map fst d)
           \<and> (\<forall>s. map_of d s
                = (if filter (\<lambda>r. departure_station_id r = s) fetched = [] then None
                   else Some (filter (\<lambda>r. departure_station_id r = s) fetched)))"
  using group_foldl[of "[]" departure_station_id fetched] assms
  by (simp add: group_by_station_def construct_all_valid)

lemma ranked_rows_subset:
  "ranked_row ` set (ranked_routes rows) \<subseteq> set rows"
proof -
  have "set (map ranked_row (window t c k part)) = set part" for t c k part
    by (simp only: window_rows)
  then have w: "ranked_row ` set (window t c k part) = set part" for t c k part
    by simp
  show ?thesis
  proof
    fix r assume "r \<in> ranked_row ` set (ranked_routes rows)"
    then obtain x s where "x \<in> set (window (sum_list (map trip_count (station_partition rows s))) 0 0
                                    (station_partition rows s))" "r = ranked_row x"
      by (auto simp: ranked_routes_def Let_def)
    then have "r \<in> set (station_partition rows s)"
      using w by blast
    then show "r \<in> set rows"
      using station_partition_subset by blast
  qed
qed

lemma fetched_valid:
  assumes "\<forall>r\<in>set rows. valid_statistics r"
  shows "\<forall>r\<in>set (map ranked_row (order_by_station_trip_count (filter keep (ranked_routes rows)))).
           valid_statistics r"
  using assms ranked_rows_subset[of rows]
  by (auto simp: order_by_station_trip_count_def)

lemma station_partition_empty:
  "station_partition rows s = [] \<longleftrightarrow> s \<notin> departure_station_id ` set (route_stats rows)"
  by (auto simp: station_partition_def order_by_trip_count_desc_def filter_empty_conv
      simp flip: set_empty)






section \<open>Per-station coverage selection\<close>

text \<open>The part of claim C1 that the query does guarantee: every station that departs
  a qualifying pair gets a non-empty list that starts with its top pair.\<close>

lemma station_coverage_keeps_top_pair:
  assumes "\<forall>r\<in>set rows. valid_statistics r"
    and "s \<in> departure_station_id ` set (route_stats rows)"
  shows "\<exists>per_station selected rest. get_routes_by_station_coverage rows pct = Inr per_station
           \<and> map_of per_station s = Some selected
           \<and> selected = hd (station_partition rows s) # rest"
proof -
  let ?keep = "\<lambda>x. of_int (cumulative_trips x) / of_int (total_trips x) * 100 \<le> pct \<or> rank x = 1"
  let ?fetched = "map ranked_row (order_by_station_trip_count (filter ?keep (ranked_routes rows)))"
  obtain d where d: "group_by_station ?fetched = Inr d"
    "\<And>s. map_of d s = (if filter (\<lambda>r. departure_station_id r = s) ?fetched = [] then None
                   else Some (filter (\<lambda>r. departure_station_id r = s) ?fetched))"
    using group_by_station_valid[OF fetched_valid[OF assms(1)]] by blast
  obtain r part where part: "station_partition rows s = r # part"
    using assms(2) station_partition_empty[of rows s] by (cases "station_partition rows s") auto
  have "filter (\<lambda>r. departure_station_id r = s) ?fetched
        = r # map ranked_row (filter ?keep
               (window (sum_list (map trip_count (station_partition rows s)))
                  (0 + trip_count r) (0 + 1) part))"
    unfolding per_station_rows using assms(2) by (simp add: part)
  then show ?thesis
    using d unfolding get_routes_by_station_coverage_def
    by (intro exI[of _ d]) (simp add: part)
qed

text \<open>
  Claim C1, evaluated where it fails. Station 030 departs four pairs with counts 50, 30,
  15 and 5 (total 100) and the requested coverage is 70 percent. The pair with count 30
  crosses the threshold (cumulative 80) and the claimed selection holds the pairs 50 and
  30; the query keeps a row only while cumulative / total * 100 is at most the percentage
  (or the row has rank 1), so it returns the pair with count 50 alone, 50 percent of the
  station's trips.
\<close>

theorem station_coverage_drops_crossing_pair:
  "get_routes_by_station_coverage station_coverage_scenario 70
     = Inr [(''030'', [stat ''030'' ''067'' 50])]
   \<and> claimed_station_coverage station_coverage_scenario 70 ''030''
     = [stat ''030'' ''067'' 50, stat ''030'' ''045'' 30]"
  by (simp add: get_routes_by_station_coverage_def claimed_station_coverage_def
      station_coverage_scenario_def stat_def ranked_routes_def
      station_partition_def route_stats_def order_by_trip_count_desc_def Let_def
      order_by_station_trip_count_def group_by_station_def RouteStatistics_init_def
      less_eq_prod_def less_prod_def)

section \<open>Bidirectional deduplication\<close>














section \<open>Organizing by station\<close>









end
